theory Spec2Isabelle
  imports Main "HOL-Library.Sublist"
begin

section \<open>WhisperingCat: the settings schema and the two model-loading hooks\<close>

text \<open>
  The development embeds \<^verbatim>\<open>src/settings.py\<close>: the option enumerations, the pydantic
  model \<^verbatim>\<open>Settings\<close> with its two \<^verbatim>\<open>model_validator(mode="after")\<close> methods, and the hooks
  \<^verbatim>\<open>activated\<close> and \<^verbatim>\<open>after_cat_bootstrap\<close>.
\<close>

subsection \<open>Option enumerations\<close>

text \<open>
  \<^verbatim>\<open>LanguageCode\<close> is built at import time from the table of \<^verbatim>\<open>pycountry.languages\<close>, which
  is not part of the repository: a member is represented by its name, the upper-case
  two-letter code (\<^verbatim>\<open>LanguageCode.EN\<close> is \<open>LanguageCode ''EN''\<close>); its value is the
  lower-case code.
\<close>

datatype LanguageCode = LanguageCode string

datatype ModelSize =
    TINY | TINY_EN | BASE | BASE_EN | SMALL | SMALL_EN | MEDIUM | MEDIUM_EN
  | LARGE_V1 | LARGE_V2 | LARGE_V3 | LARGE | OTHER

fun ModelSize_value :: "ModelSize \<Rightarrow> string" where
  "ModelSize_value TINY = ''tiny''"
| "ModelSize_value TINY_EN = ''tiny.en''"
| "ModelSize_value BASE = ''base''"
| "ModelSize_value BASE_EN = ''base.en''"
| "ModelSize_value SMALL = ''small''"
| "ModelSize_value SMALL_EN = ''small.en''"
| "ModelSize_value MEDIUM = ''medium''"
| "ModelSize_value MEDIUM_EN = ''medium.en''"
| "ModelSize_value LARGE_V1 = ''large-v1''"
| "ModelSize_value LARGE_V2 = ''large-v2''"
| "ModelSize_value LARGE_V3 = ''large-v3''"
| "ModelSize_value LARGE = ''large''"
| "ModelSize_value OTHER = ''Other''"

datatype Device = CPU | CUDA | AUTO

fun Device_value :: "Device \<Rightarrow> string" where
  "Device_value CPU = ''cpu''"
| "Device_value CUDA = ''cuda''"
| "Device_value AUTO = ''auto''"

datatype ComputeType =
    INT8 | INT8_FLOAT32 | INT8_FLOAT16 | INT8_BFLOAT16 | INT16 | FLOAT16 | BFLOAT16 | FLOAT32

fun ComputeType_value :: "ComputeType \<Rightarrow> string" where
  "ComputeType_value INT8 = ''int8''"
| "ComputeType_value INT8_FLOAT32 = ''int8_float32''"
| "ComputeType_value INT8_FLOAT16 = ''int8_float16''"
| "ComputeType_value INT8_BFLOAT16 = ''int8_bfloat16''"
| "ComputeType_value INT16 = ''int16''"
| "ComputeType_value FLOAT16 = ''float16''"
| "ComputeType_value BFLOAT16 = ''bfloat16''"
| "ComputeType_value FLOAT32 = ''float32''"

subsection \<open>The Settings record\<close>

text \<open>
  The field \<^verbatim>\<open>api_key\<close> is annotated \<^verbatim>\<open>SecretStr\<close> with \<^verbatim>\<open>default=""\<close>. Pydantic does not
  validate a default (\<^verbatim>\<open>validate_default\<close> is off), so an instance built without the key
  holds the plain string \<^verbatim>\<open>""\<close>, and an instance built with it holds a \<^verbatim>\<open>SecretStr\<close> object.
  Both kinds of value are kept apart.
\<close>

datatype api_key_value = Plain_str string | SecretStr string

record Settings =
  language :: LanguageCode
  use_local_model :: bool
  api_key :: api_key_value
  w_model_size :: ModelSize
  device :: Device
  n_workers :: int
  compute_type :: ComputeType
  w_model_path_or_id :: string

text \<open>The \<^verbatim>\<open>default=\<close> arguments of the eight \<^verbatim>\<open>Field(...)\<close> declarations.\<close>

definition Settings_defaults :: Settings where
  "Settings_defaults =
     \<lparr> language = LanguageCode ''EN'',
       use_local_model = True,
       api_key = Plain_str '''',
       w_model_size = BASE,
       device = AUTO,
       n_workers = 1,
       compute_type = FLOAT32,
       w_model_path_or_id = '''' \<rparr>"

subsection \<open>Payloads and the per-field stage\<close>

text \<open>
  \<^verbatim>\<open>Settings(**payload)\<close> receives a mapping from field names to raw values. The coercion of
  a raw value to the annotated type (\<^verbatim>\<open>"Other"\<close> to \<^verbatim>\<open>ModelSize.OTHER\<close>, a string to
  \<^verbatim>\<open>SecretStr\<close>, \<dots>) is done by pydantic, not by this repository; a payload is therefore
  given by the outcome of that coercion for each declared field: the key is absent, or its
  value coerces to a value of the field's type, or it is rejected with a type error. Keys
  that name no field are ignored by pydantic's default configuration and do not appear.
\<close>

datatype 'a entry = Absent | Coerced 'a | Rejected

record payload =
  in_language :: "LanguageCode entry"
  in_use_local_model :: "bool entry"
  in_api_key :: "string entry"
  in_w_model_size :: "ModelSize entry"
  in_device :: "Device entry"
  in_n_workers :: "int entry"
  in_compute_type :: "ComputeType entry"
  in_w_model_path_or_id :: "string entry"

definition empty_payload :: payload where
  "empty_payload =
     \<lparr> in_language = Absent, in_use_local_model = Absent, in_api_key = Absent,
       in_w_model_size = Absent, in_device = Absent, in_n_workers = Absent,
       in_compute_type = Absent, in_w_model_path_or_id = Absent \<rparr>"

text \<open>
  One line of a \<^verbatim>\<open>ValidationError\<close>: a field whose value has the wrong type, a field that
  breaks its \<^verbatim>\<open>ge=\<close> bound, or a \<^verbatim>\<open>ValueError\<close> raised by a model validator, with its
  message.
\<close>

datatype error_detail =
    Type_error string
  | Greater_than_equal string int
  | Value_error string

datatype error = ValidationError "error_detail list"

text \<open>
  The per-field stage visits the fields in declaration order. A field that is absent keeps
  its default, a coerced value is stored, a rejected one adds an error line; all fields are
  visited, so the lines of all failing fields are collected.
\<close>

fun field :: "string \<Rightarrow> ('a \<Rightarrow> Settings \<Rightarrow> Settings) \<Rightarrow> 'a entry
    \<Rightarrow> error_detail list \<times> Settings \<Rightarrow> error_detail list \<times> Settings" where
  "field name store Absent (es, s) = (es, s)"
| "field name store (Coerced v) (es, s) = (es, store v s)"
| "field name store Rejected (es, s) = (es @ [Type_error name], s)"

text \<open>\<^verbatim>\<open>n_workers: int = Field(default=1, ge=1)\<close>: a coerced integer must be at least 1.\<close>

fun field_n_workers :: "int entry \<Rightarrow> error_detail list \<times> Settings
    \<Rightarrow> error_detail list \<times> Settings" where
  "field_n_workers Absent (es, s) = (es, s)"
| "field_n_workers (Coerced n) (es, s) =
     (if n \<ge> 1 then (es, s\<lparr>n_workers := n\<rparr>)
      else (es @ [Greater_than_equal ''n_workers'' 1], s))"
| "field_n_workers Rejected (es, s) = (es @ [Type_error ''n_workers''], s)"

definition validate_fields :: "payload \<Rightarrow> error_detail list \<times> Settings" where
  "validate_fields p =
     (let x0 = ([], Settings_defaults);
          x1 = field ''language'' (\<lambda>v s. s\<lparr>language := v\<rparr>) (in_language p) x0;
          x2 = field ''use_local_model'' (\<lambda>v s. s\<lparr>use_local_model := v\<rparr>) (in_use_local_model p) x1;
          x3 = field ''api_key'' (\<lambda>v s. s\<lparr>api_key := SecretStr v\<rparr>) (in_api_key p) x2;
          x4 = field ''w_model_size'' (\<lambda>v s. s\<lparr>w_model_size := v\<rparr>) (in_w_model_size p) x3;
          x5 = field ''device'' (\<lambda>v s. s\<lparr>device := v\<rparr>) (in_device p) x4;
          x6 = field_n_workers (in_n_workers p) x5;
          x7 = field ''compute_type'' (\<lambda>v s. s\<lparr>compute_type := v\<rparr>) (in_compute_type p) x6
      in field ''w_model_path_or_id'' (\<lambda>v s. s\<lparr>w_model_path_or_id := v\<rparr>)
           (in_w_model_path_or_id p) x7)"

subsection \<open>The model validators and construction\<close>

text \<open>
  Python truth values: a string is true when it is not empty; \<^verbatim>\<open>SecretStr\<close> defines
  \<^verbatim>\<open>__len__\<close> as the length of the secret, so it is true when the secret is not empty.
\<close>

definition truthy_str :: "string \<Rightarrow> bool" where
  "truthy_str s = (s \<noteq> [])"

fun truthy_api_key :: "api_key_value \<Rightarrow> bool" where
  "truthy_api_key (Plain_str s) = truthy_str s"
| "truthy_api_key (SecretStr s) = (length s \<noteq> 0)"

text \<open>A validator returns \<open>Inr self\<close>, or \<open>Inl msg\<close> when it raises \<^verbatim>\<open>ValueError(msg)\<close>.\<close>

definition validate_model_path_or_id :: "Settings \<Rightarrow> string + Settings" where
  "validate_model_path_or_id self =
     (if w_model_size self = OTHER \<and> \<not> truthy_str (w_model_path_or_id self)
      then Inl ''Custom Model Path is required when 'Other' is selected in Model Size''
      else Inr self)"

definition validate_api_key :: "Settings \<Rightarrow> string + Settings" where
  "validate_api_key self =
     (if \<not> use_local_model self \<and> \<not> truthy_api_key (api_key self)
      then Inl ''OpenAI API Key is required for online mode''
      else Inr self)"

text \<open>
  Construction: the per-field stage; if it collected errors they are raised together and no
  model validator runs. Otherwise the \<^verbatim>\<open>mode="after"\<close> validators run on the instance in the
  order of their definition in the class, and the first \<^verbatim>\<open>ValueError\<close> ends construction as
  a \<^verbatim>\<open>ValidationError\<close> with that one line. Neither stage reads anything but the payload or
  assigns to anything but the instance under construction, so construction is a function from
  payloads to results.
\<close>

definition Settings_construct :: "payload \<Rightarrow> error + Settings" where
  "Settings_construct p =
     (case validate_fields p of
        (e # es, s) \<Rightarrow> Inl (ValidationError (e # es))
      | ([], s) \<Rightarrow>
          (case validate_model_path_or_id s of
             Inl msg \<Rightarrow> Inl (ValidationError [Value_error msg])
           | Inr s1 \<Rightarrow>
               (case validate_api_key s1 of
                  Inl msg \<Rightarrow> Inl (ValidationError [Value_error msg])
                | Inr s2 \<Rightarrow> Inr s2)))"

subsection \<open>How the api-key is shown\<close>



subsection \<open>The hooks\<close>

text \<open>
  \<^verbatim>\<open>load_settings()\<close> returns \<^verbatim>\<open>None\<close> or a dict read from the plugin's JSON settings
  file. The hooks look at two things of it: its truth value and the truth value of
  \<^verbatim>\<open>settings["use_local_model"]\<close>. A dict is an association list read with \<open>map_of\<close>;
  a value is one of the scalars, or any other object, given by its truth value.
\<close>

datatype pyval = PNone | PBool bool | PInt int | PStr string | PObject bool

fun truthy :: "pyval \<Rightarrow> bool" where
  "truthy PNone = False"
| "truthy (PBool b) = b"
| "truthy (PInt n) = (n \<noteq> 0)"
| "truthy (PStr s) = (s \<noteq> [])"
| "truthy (PObject t) = t"

type_synonym settings_dict = "(string \<times> pyval) list"

datatype py_error = KeyError string | Provider_error string

text \<open>\<open>d[k]\<close>: the value stored under \<open>k\<close>, or \<^verbatim>\<open>KeyError\<close>.\<close>

definition subscript :: "settings_dict \<Rightarrow> string \<Rightarrow> py_error + pyval" where
  "subscript d k = (case map_of d k of None \<Rightarrow> Inl (KeyError k) | Some v \<Rightarrow> Inr v)"

text \<open>\<^verbatim>\<open>Path(p)\<close> and \<^verbatim>\<open>path / name\<close> of \<^verbatim>\<open>pathlib\<close>, kept symbolic.\<close>

datatype PurePath = Path string | Slash PurePath string

text \<open>
  The state the hooks act on: the class attribute \<^verbatim>\<open>LocalWhisper.download_path\<close>, and the
  effects performed so far, in program order.
\<close>

datatype event = Set_download_path PurePath | Load_settings | Get_instance settings_dict

record world =
  download_path :: "PurePath option"
  trace :: "event list"

text \<open>
  The plugin object of the host framework: its \<^verbatim>\<open>path\<close> attribute and what
  \<^verbatim>\<open>load_settings()\<close> returns. \<^verbatim>\<open>MadHatter()\<close> and \<^verbatim>\<open>cat.mad_hatter\<close> are host objects whose
  \<^verbatim>\<open>get_plugin()\<close> returns a plugin object.
\<close>

record plugin =
  path :: string
  load_settings :: "settings_dict option"

record MadHatter =
  get_plugin :: plugin

record CheshireCat =
  mad_hatter :: MadHatter

text \<open>
  \<^verbatim>\<open>LocalWhisper.get_instance\<close> lives in \<^verbatim>\<open>transcribe.py\<close>, which is not among the sources.
  The hooks take it as the parameter \<open>get_instance\<close>: given the state at the call and the
  argument, it tells whether the call returns (\<open>None\<close>) or raises. The call is recorded in
  the trace in both cases, and an exception leaves the hook unhandled.
\<close>

definition activated ::
  "(world \<Rightarrow> settings_dict \<Rightarrow> py_error option) \<Rightarrow> plugin \<Rightarrow> world \<Rightarrow> py_error option \<times> world" where
  "activated get_instance plugin w =
     (let w1 = w\<lparr>download_path := Some (Slash (Path (path plugin)) ''models''),
                 trace := trace w @ [Set_download_path (Slash (Path (path plugin)) ''models'')]\<rparr>;
          settings = load_settings plugin;
          w2 = w1\<lparr>trace := trace w1 @ [Load_settings]\<rparr>
      in case settings of
           None \<Rightarrow> (None, w2)
         | Some d \<Rightarrow>
             if d = [] then (None, w2)
             else (case subscript d ''use_local_model'' of
                     Inl e \<Rightarrow> (Some e, w2)
                   | Inr flag \<Rightarrow>
                       if truthy flag
                       then (get_instance w2 d, w2\<lparr>trace := trace w2 @ [Get_instance d]\<rparr>)
                       else (None, w2)))"

definition after_cat_bootstrap ::
  "(world \<Rightarrow> settings_dict \<Rightarrow> py_error option) \<Rightarrow> MadHatter \<Rightarrow> CheshireCat \<Rightarrow> world
     \<Rightarrow> py_error option \<times> world" where
  "after_cat_bootstrap get_instance MadHatter_instance cat w =
     (let base = path (get_plugin MadHatter_instance);
          w1 = w\<lparr>download_path := Some (Slash (Path base) ''models''),
                 trace := trace w @ [Set_download_path (Slash (Path base) ''models'')]\<rparr>;
          settings = load_settings (get_plugin (mad_hatter cat));
          w2 = w1\<lparr>trace := trace w1 @ [Load_settings]\<rparr>
      in case settings of
           None \<Rightarrow> (None, w2)
         | Some d \<Rightarrow>
             if d = [] then (None, w2)
             else (case subscript d ''use_local_model'' of
                     Inl e \<Rightarrow> (Some e, w2)
                   | Inr flag \<Rightarrow>
                       if truthy flag
                       then (get_instance w2 d, w2\<lparr>trace := trace w2 @ [Get_instance d]\<rparr>)
                       else (None, w2)))"

text \<open>
  The condition under which a hook asks for the model: the loaded value is a non-empty dict
  that holds a true value under \<^verbatim>\<open>use_local_model\<close>.
\<close>

fun wants_local_model :: "settings_dict option \<Rightarrow> bool" where
  "wants_local_model None = False"
| "wants_local_model (Some d) =
     (d \<noteq> [] \<and> (case map_of d ''use_local_model'' of None \<Rightarrow> False | Some v \<Rightarrow> truthy v))"

text \<open>The \<^verbatim>\<open>get_instance\<close> calls of a trace, with their arguments.\<close>

fun get_instance_calls :: "event list \<Rightarrow> settings_dict list" where
  "get_instance_calls [] = []"
| "get_instance_calls (Get_instance d # es) = d # get_instance_calls es"
| "get_instance_calls (e # es) = get_instance_calls es"

subsection \<open>Notions used in the statements\<close>

text \<open>The error lines one field contributes to the per-field stage.\<close>

definition field_errors :: "string \<Rightarrow> 'a entry \<Rightarrow> error_detail list" where
  "field_errors name e = (case e of Rejected \<Rightarrow> [Type_error name] | _ \<Rightarrow> [])"

definition n_workers_errors :: "int entry \<Rightarrow> error_detail list" where
  "n_workers_errors e =
     (case e of
        Absent \<Rightarrow> []
      | Rejected \<Rightarrow> [Type_error ''n_workers'']
      | Coerced n \<Rightarrow> if n \<ge> 1 then [] else [Greater_than_equal ''n_workers'' 1])"

text \<open>A model provider whose \<^verbatim>\<open>get_instance\<close> always returns, for concrete runs.\<close>

definition never_raises :: "world \<Rightarrow> settings_dict \<Rightarrow> py_error option" where
  "never_raises w d = None"

section \<open>Properties of Settings construction\<close>

subsection \<open>The two stages in closed form\<close>

text \<open>
  The per-field stage appends to the error list and touches one field of the record, so its
  errors are the concatenation of what each field contributes, in declaration order.
\<close>

lemma fst_field: "fst (field name store e x) = fst x @ field_errors name e"
  by (cases x; cases e) (simp_all add: field_errors_def)

lemma fst_field_n_workers: "fst (field_n_workers e x) = fst x @ n_workers_errors e"
  by (cases x; cases e) (simp_all add: n_workers_errors_def)

lemma snd_field: "snd (field name store e x) = (case e of Coerced v \<Rightarrow> store v (snd x) | _ \<Rightarrow> snd x)"
  by (cases x; cases e) simp_all

lemma snd_field_n_workers:
  "snd (field_n_workers e x) = (case e of Coerced n \<Rightarrow> if n \<ge> 1 then (snd x)\<lparr>n_workers := n\<rparr> else snd x | _ \<Rightarrow> snd x)"
  by (cases x; cases e) simp_all

lemma validate_fields_errors:
  "fst (validate_fields p) =
     field_errors ''language'' (in_language p) @ field_errors ''use_local_model'' (in_use_local_model p)
     @ field_errors ''api_key'' (in_api_key p) @ field_errors ''w_model_size'' (in_w_model_size p)
     @ field_errors ''device'' (in_device p) @ n_workers_errors (in_n_workers p)
     @ field_errors ''compute_type'' (in_compute_type p)
     @ field_errors ''w_model_path_or_id'' (in_w_model_path_or_id p)"
  by (simp add: validate_fields_def Let_def fst_field fst_field_n_workers)

text \<open>
  A step of the per-field stage leaves every other field of the record as it was; hence each
  field of the result is the coerced value of its own key, or its default.
\<close>

lemma sel_field:
  "(\<And>v s. sel (store v s) = sel s) \<Longrightarrow> sel (snd (field name store e x)) = sel (snd x)"
  by (cases x; cases e) simp_all

lemma sel_field_n_workers:
  "(\<And>f s. sel (s\<lparr>n_workers := f\<rparr>) = sel s) \<Longrightarrow> sel (snd (field_n_workers e x)) = sel (snd x)"
  by (cases x; cases e) simp_all

lemmas n_workers_field = sel_field [where sel = n_workers]
lemmas w_model_size_field = sel_field [where sel = w_model_size] sel_field_n_workers [where sel = w_model_size]
lemmas w_model_path_or_id_field = sel_field [where sel = w_model_path_or_id] sel_field_n_workers [where sel = w_model_path_or_id]
lemmas use_local_model_field = sel_field [where sel = use_local_model] sel_field_n_workers [where sel = use_local_model]
lemmas api_key_field = sel_field [where sel = api_key] sel_field_n_workers [where sel = api_key]

lemma validated_n_workers:
  "n_workers (snd (validate_fields p)) =
     (case in_n_workers p of Coerced n \<Rightarrow> if n \<ge> 1 then n else 1 | _ \<Rightarrow> 1)"
  by (simp add: validate_fields_def Let_def n_workers_field snd_field_n_workers Settings_defaults_def split: entry.split)

lemma validated_w_model_size:
  "w_model_size (snd (validate_fields p)) = (case in_w_model_size p of Coerced v \<Rightarrow> v | _ \<Rightarrow> BASE)"
  by (simp add: validate_fields_def Let_def w_model_size_field snd_field Settings_defaults_def split: entry.split)

lemma validated_w_model_path_or_id:
  "w_model_path_or_id (snd (validate_fields p)) = (case in_w_model_path_or_id p of Coerced v \<Rightarrow> v | _ \<Rightarrow> [])"
  by (simp add: validate_fields_def Let_def w_model_path_or_id_field snd_field Settings_defaults_def split: entry.split)

lemma validated_use_local_model:
  "use_local_model (snd (validate_fields p)) = (case in_use_local_model p of Coerced v \<Rightarrow> v | _ \<Rightarrow> True)"
  by (simp add: validate_fields_def Let_def use_local_model_field snd_field Settings_defaults_def split: entry.split)

lemma validated_api_key:
  "api_key (snd (validate_fields p)) = (case in_api_key p of Coerced v \<Rightarrow> SecretStr v | _ \<Rightarrow> Plain_str [])"
  by (simp add: validate_fields_def Let_def api_key_field snd_field Settings_defaults_def split: entry.split)





text \<open>
  Construction as one conditional: the errors of the per-field stage if there are any, else
  the message of the first validator that raises, else the record of the per-field stage.
\<close>

lemma construct_unfold:
  "Settings_construct p =
     (if fst (validate_fields p) \<noteq> [] then Inl (ValidationError (fst (validate_fields p)))
      else if w_model_size (snd (validate_fields p)) = OTHER \<and> w_model_path_or_id (snd (validate_fields p)) = []
      then Inl (ValidationError [Value_error ''Custom Model Path is required when 'Other' is selected in Model Size''])
      else if \<not> use_local_model (snd (validate_fields p)) \<and> \<not> truthy_api_key (api_key (snd (validate_fields p)))
      then Inl (ValidationError [Value_error ''OpenAI API Key is required for online mode''])
      else Inr (snd (validate_fields p)))"
proof (cases "validate_fields p")
  case (Pair es s)
  show ?thesis
  proof (cases es)
    case Nil
    with Pair show ?thesis
      by (simp add: Settings_construct_def validate_model_path_or_id_def validate_api_key_def truthy_str_def)
  next
    case (Cons e es')
    with Pair show ?thesis
      by (simp add: Settings_construct_def)
  qed
qed

text \<open>The definitions to unfold when construction is evaluated on a concrete payload.\<close>

lemmas construct_eval =
  Settings_construct_def validate_fields_def Let_def empty_payload_def Settings_defaults_def
  validate_model_path_or_id_def validate_api_key_def truthy_str_def

subsection \<open>The claims about construction\<close>

text \<open>
  C4. Constructing a Settings record from the empty payload succeeds, and the record holds
  the defaults: language EN, use-local-model true, api-key the empty string, model-size BASE,
  device AUTO, worker-count 1, compute-type FLOAT32, custom-model-path-or-id the empty string.
\<close>

theorem construct_empty_payload:
  "Settings_construct empty_payload =
     Inr \<lparr> language = LanguageCode ''EN'', use_local_model = True, api_key = Plain_str '''',
           w_model_size = BASE, device = AUTO, n_workers = 1, compute_type = FLOAT32,
           w_model_path_or_id = '''' \<rparr>"
  by (simp add: Settings_construct_def validate_fields_def Let_def empty_payload_def Settings_defaults_def
      validate_model_path_or_id_def validate_api_key_def truthy_str_def)

text \<open>
  C5. Every payload whose worker-count is below 1 fails construction with a ValidationError,
  which holds the line of the \<^verbatim>\<open>ge=1\<close> bound of \<^verbatim>\<open>n_workers\<close>; and every record that
  construction returns has a worker-count of at least 1.
\<close>

theorem n_workers_at_least_one:
  "(in_n_workers p = Coerced n \<and> n < 1 \<longrightarrow>
      (\<exists>es. Settings_construct p = Inl (ValidationError es)
            \<and> Greater_than_equal ''n_workers'' 1 \<in> set es))
   \<and> (Settings_construct p = Inr s \<longrightarrow> 1 \<le> n_workers s)"
proof (intro conjI impI)
  assume a: "in_n_workers p = Coerced n \<and> n < 1"
  then have "Greater_than_equal ''n_workers'' 1 \<in> set (fst (validate_fields p))"
    by (simp add: validate_fields_errors n_workers_errors_def)
  moreover from this have "fst (validate_fields p) \<noteq> []" by auto
  ultimately show "\<exists>es. Settings_construct p = Inl (ValidationError es)
            \<and> Greater_than_equal ''n_workers'' 1 \<in> set es"
    by (simp add: construct_unfold)
next
  assume "Settings_construct p = Inr s"
  then have "s = snd (validate_fields p)"
    by (simp add: construct_unfold split: if_splits)
  then show "1 \<le> n_workers s"
    by (simp add: validated_n_workers split: entry.split)
qed

text \<open>
  The statement of C5 at the payloads \<^verbatim>\<open>{n_workers: 0}\<close> and \<^verbatim>\<open>{n_workers: 3}\<close>.
\<close>

theorem n_workers_at_least_one_witness:
  "in_n_workers (empty_payload\<lparr>in_n_workers := Coerced 0\<rparr>) = Coerced 0 \<and> (0::int) < 1
   \<and> (\<exists>es. Settings_construct (empty_payload\<lparr>in_n_workers := Coerced 0\<rparr>) = Inl (ValidationError es)
            \<and> Greater_than_equal ''n_workers'' 1 \<in> set es)
   \<and> Settings_construct (empty_payload\<lparr>in_n_workers := Coerced 3\<rparr>) = Inr (Settings_defaults\<lparr>n_workers := 3\<rparr>)
   \<and> 1 \<le> n_workers (Settings_defaults\<lparr>n_workers := 3\<rparr>)"
  using n_workers_at_least_one [of "empty_payload\<lparr>in_n_workers := Coerced 0\<rparr>" 0 Settings_defaults]
    n_workers_at_least_one [of "empty_payload\<lparr>in_n_workers := Coerced 3\<rparr>" 3 "Settings_defaults\<lparr>n_workers := 3\<rparr>"]
  by (simp add: construct_eval)

text \<open>
  C2, as stated, asks for the message of rule A on every payload with model-size OTHER and an
  empty custom path. The payload \<^verbatim>\<open>{w_model_size: OTHER, w_model_path_or_id: "", n_workers: 0}\<close>
  is such a payload; it fails in the per-field stage, the model validators never run, and the
  error holds the line of \<^verbatim>\<open>n_workers\<close> only.
\<close>

theorem other_without_custom_path_counterexample:
  "in_w_model_size (empty_payload\<lparr>in_w_model_size := Coerced OTHER, in_n_workers := Coerced 0,
       in_w_model_path_or_id := Coerced []\<rparr>) = Coerced OTHER
   \<and> in_w_model_path_or_id (empty_payload\<lparr>in_w_model_size := Coerced OTHER, in_n_workers := Coerced 0,
       in_w_model_path_or_id := Coerced []\<rparr>) = Coerced []
   \<and> Settings_construct (empty_payload\<lparr>in_w_model_size := Coerced OTHER, in_n_workers := Coerced 0,
       in_w_model_path_or_id := Coerced []\<rparr>)
       = Inl (ValidationError [Greater_than_equal ''n_workers'' 1])
   \<and> Settings_construct (empty_payload\<lparr>in_w_model_size := Coerced OTHER, in_n_workers := Coerced 0,
       in_w_model_path_or_id := Coerced []\<rparr>)
       \<noteq> Inl (ValidationError
            [Value_error ''Custom Model Path is required when 'Other' is selected in Model Size''])"
  by (simp add: construct_eval)

text \<open>
  C2, amended. Every payload with model-size OTHER and an empty (or absent) custom path fails
  construction; when its per-field checks pass, the error is the single message "Custom Model
  Path is required when 'Other' is selected in Model Size". The payload with model-size OTHER,
  a non-empty custom path and every other key absent is constructed, with the defaults in the
  other fields.
\<close>

theorem other_requires_custom_path:
  "(in_w_model_size p = Coerced OTHER
      \<and> (in_w_model_path_or_id p = Absent \<or> in_w_model_path_or_id p = Coerced [])
    \<longrightarrow> (\<exists>es. Settings_construct p = Inl (ValidationError es))
        \<and> (fst (validate_fields p) = [] \<longrightarrow>
             Settings_construct p = Inl (ValidationError
               [Value_error ''Custom Model Path is required when 'Other' is selected in Model Size''])))
   \<and> (m \<noteq> [] \<longrightarrow>
        Settings_construct (empty_payload\<lparr>in_w_model_size := Coerced OTHER,
                                           in_w_model_path_or_id := Coerced m\<rparr>)
          = Inr (Settings_defaults\<lparr>w_model_size := OTHER, w_model_path_or_id := m\<rparr>))"
proof (intro conjI impI)
  assume a: "in_w_model_size p = Coerced OTHER
      \<and> (in_w_model_path_or_id p = Absent \<or> in_w_model_path_or_id p = Coerced [])"
  then have r: "w_model_size (snd (validate_fields p)) = OTHER
      \<and> w_model_path_or_id (snd (validate_fields p)) = []"
    by (auto simp: validated_w_model_size validated_w_model_path_or_id)
  then show "\<exists>es. Settings_construct p = Inl (ValidationError es)"
    by (simp add: construct_unfold)
  assume "fst (validate_fields p) = []"
  with r show "Settings_construct p = Inl (ValidationError
      [Value_error ''Custom Model Path is required when 'Other' is selected in Model Size''])"
    by (simp add: construct_unfold)
next
  assume "m \<noteq> []"
  then show "Settings_construct (empty_payload\<lparr>in_w_model_size := Coerced OTHER,
                                           in_w_model_path_or_id := Coerced m\<rparr>)
          = Inr (Settings_defaults\<lparr>w_model_size := OTHER, w_model_path_or_id := m\<rparr>)"
    by (simp add: construct_eval)
qed

text \<open>
  The statement of C2 at \<^verbatim>\<open>{w_model_size: OTHER}\<close> and at
  \<^verbatim>\<open>{w_model_size: OTHER, w_model_path_or_id: "org/whisper-small-it"}\<close>.
\<close>

theorem other_requires_custom_path_witness:
  "Settings_construct (empty_payload\<lparr>in_w_model_size := Coerced OTHER\<rparr>)
     = Inl (ValidationError
         [Value_error ''Custom Model Path is required when 'Other' is selected in Model Size''])
   \<and> fst (validate_fields (empty_payload\<lparr>in_w_model_size := Coerced OTHER\<rparr>)) = []
   \<and> in_w_model_size (empty_payload\<lparr>in_w_model_size := Coerced OTHER\<rparr>) = Coerced OTHER
   \<and> in_w_model_path_or_id (empty_payload\<lparr>in_w_model_size := Coerced OTHER\<rparr>) = Absent
   \<and> ''org/whisper-small-it'' \<noteq> []
   \<and> Settings_construct (empty_payload\<lparr>in_w_model_size := Coerced OTHER,
          in_w_model_path_or_id := Coerced ''org/whisper-small-it''\<rparr>)
       = Inr (Settings_defaults\<lparr>w_model_size := OTHER, w_model_path_or_id := ''org/whisper-small-it''\<rparr>)"
  using other_requires_custom_path
    [of "empty_payload\<lparr>in_w_model_size := Coerced OTHER\<rparr>" "''org/whisper-small-it''"]
  by (simp add: validate_fields_def Let_def empty_payload_def Settings_defaults_def)

text \<open>
  C3, as stated, asks for the message of rule B on every payload with use-local-model false and
  an empty api-key. The payload \<^verbatim>\<open>{use_local_model: false, w_model_size: OTHER}\<close> is such a
  payload; \<^verbatim>\<open>validate_model_path_or_id\<close> runs first and raises, so the error holds the message
  of rule A and not that of rule B.
\<close>

theorem online_without_api_key_counterexample:
  "in_use_local_model (empty_payload\<lparr>in_use_local_model := Coerced False,
       in_w_model_size := Coerced OTHER\<rparr>) = Coerced False
   \<and> in_api_key (empty_payload\<lparr>in_use_local_model := Coerced False,
       in_w_model_size := Coerced OTHER\<rparr>) = Absent
   \<and> Settings_construct (empty_payload\<lparr>in_use_local_model := Coerced False,
       in_w_model_size := Coerced OTHER\<rparr>)
       = Inl (ValidationError
            [Value_error ''Custom Model Path is required when 'Other' is selected in Model Size''])
   \<and> Settings_construct (empty_payload\<lparr>in_use_local_model := Coerced False,
       in_w_model_size := Coerced OTHER\<rparr>)
       \<noteq> Inl (ValidationError [Value_error ''OpenAI API Key is required for online mode''])"
  by (simp add: construct_eval)

text \<open>
  C3, amended. Every payload with use-local-model false and an empty (or absent) api-key fails
  construction; when its per-field checks pass and \<^verbatim>\<open>validate_model_path_or_id\<close> accepts the
  instance, the error is the single message "OpenAI API Key is required for online mode". The
  payload with use-local-model false, a non-empty api-key and every other key absent is
  constructed, with the key held as a \<^verbatim>\<open>SecretStr\<close>.
\<close>

theorem online_requires_api_key:
  "(in_use_local_model p = Coerced False \<and> (in_api_key p = Absent \<or> in_api_key p = Coerced [])
    \<longrightarrow> (\<exists>es. Settings_construct p = Inl (ValidationError es))
        \<and> (fst (validate_fields p) = []
             \<and> validate_model_path_or_id (snd (validate_fields p)) = Inr (snd (validate_fields p))
             \<longrightarrow> Settings_construct p = Inl (ValidationError
                    [Value_error ''OpenAI API Key is required for online mode''])))
   \<and> (k \<noteq> [] \<longrightarrow>
        Settings_construct (empty_payload\<lparr>in_use_local_model := Coerced False,
                                           in_api_key := Coerced k\<rparr>)
          = Inr (Settings_defaults\<lparr>use_local_model := False, api_key := SecretStr k\<rparr>))"
proof (intro conjI impI)
  assume a: "in_use_local_model p = Coerced False \<and> (in_api_key p = Absent \<or> in_api_key p = Coerced [])"
  then have r: "\<not> use_local_model (snd (validate_fields p))
      \<and> \<not> truthy_api_key (api_key (snd (validate_fields p)))"
    by (auto simp: validated_use_local_model validated_api_key truthy_str_def)
  then show "\<exists>es. Settings_construct p = Inl (ValidationError es)"
    by (simp add: construct_unfold)
  assume "fst (validate_fields p) = []
      \<and> validate_model_path_or_id (snd (validate_fields p)) = Inr (snd (validate_fields p))"
  with r show "Settings_construct p = Inl (ValidationError
      [Value_error ''OpenAI API Key is required for online mode''])"
    by (simp add: construct_unfold validate_model_path_or_id_def truthy_str_def split: if_splits)
next
  assume "k \<noteq> []"
  then show "Settings_construct (empty_payload\<lparr>in_use_local_model := Coerced False,
                                           in_api_key := Coerced k\<rparr>)
          = Inr (Settings_defaults\<lparr>use_local_model := False, api_key := SecretStr k\<rparr>)"
    by (simp add: construct_eval)
qed

text \<open>
  The statement of C3 at \<^verbatim>\<open>{use_local_model: false}\<close> and at
  \<^verbatim>\<open>{use_local_model: false, api_key: "sk-test"}\<close>.
\<close>

theorem online_requires_api_key_witness:
  "in_use_local_model (empty_payload\<lparr>in_use_local_model := Coerced False\<rparr>) = Coerced False
   \<and> in_api_key (empty_payload\<lparr>in_use_local_model := Coerced False\<rparr>) = Absent
   \<and> fst (validate_fields (empty_payload\<lparr>in_use_local_model := Coerced False\<rparr>)) = []
   \<and> validate_model_path_or_id (snd (validate_fields (empty_payload\<lparr>in_use_local_model := Coerced False\<rparr>)))
       = Inr (snd (validate_fields (empty_payload\<lparr>in_use_local_model := Coerced False\<rparr>)))
   \<and> Settings_construct (empty_payload\<lparr>in_use_local_model := Coerced False\<rparr>)
       = Inl (ValidationError [Value_error ''OpenAI API Key is required for online mode''])
   \<and> ''sk-test'' \<noteq> []
   \<and> Settings_construct (empty_payload\<lparr>in_use_local_model := Coerced False,
          in_api_key := Coerced ''sk-test''\<rparr>)
       = Inr (Settings_defaults\<lparr>use_local_model := False, api_key := SecretStr ''sk-test''\<rparr>)"
  using online_requires_api_key
    [of "empty_payload\<lparr>in_use_local_model := Coerced False\<rparr>" "''sk-test''"]
  by (simp add: validate_fields_def Let_def empty_payload_def Settings_defaults_def
      validate_model_path_or_id_def)

text \<open>
  C6, as stated, asks for the message of rule A on every payload that breaks both cross-field
  rules. The payload \<^verbatim>\<open>{use_local_model: false, w_model_size: OTHER, n_workers: 0}\<close> breaks
  both (each validator raises on the instance the fields give), but it fails in the per-field
  stage: the error holds the line of \<^verbatim>\<open>n_workers\<close> and no message of a rule.
\<close>

theorem both_rules_counterexample:
  "fst (validate_fields (empty_payload\<lparr>in_use_local_model := Coerced False,
       in_w_model_size := Coerced OTHER, in_n_workers := Coerced 0\<rparr>))
     = [Greater_than_equal ''n_workers'' 1]
   \<and> validate_model_path_or_id (snd (validate_fields (empty_payload\<lparr>in_use_local_model := Coerced False,
       in_w_model_size := Coerced OTHER, in_n_workers := Coerced 0\<rparr>)))
     = Inl ''Custom Model Path is required when 'Other' is selected in Model Size''
   \<and> validate_api_key (snd (validate_fields (empty_payload\<lparr>in_use_local_model := Coerced False,
       in_w_model_size := Coerced OTHER, in_n_workers := Coerced 0\<rparr>)))
     = Inl ''OpenAI API Key is required for online mode''
   \<and> Settings_construct (empty_payload\<lparr>in_use_local_model := Coerced False,
       in_w_model_size := Coerced OTHER, in_n_workers := Coerced 0\<rparr>)
     = Inl (ValidationError [Greater_than_equal ''n_workers'' 1])
   \<and> Settings_construct (empty_payload\<lparr>in_use_local_model := Coerced False,
       in_w_model_size := Coerced OTHER, in_n_workers := Coerced 0\<rparr>)
     \<noteq> Inl (ValidationError
          [Value_error ''Custom Model Path is required when 'Other' is selected in Model Size''])"
  by (simp add: construct_eval)

text \<open>
  C6, amended. Every payload that passes the per-field checks and breaks both cross-field rules
  (model-size OTHER with an empty custom path, use-local-model false with an empty api-key)
  fails construction with one error line, the message of rule A; the message of rule B, which
  \<^verbatim>\<open>validate_api_key\<close> would raise on the same instance, is not reported.
\<close>

theorem both_rules_report_first:
  assumes "fst (validate_fields p) = []"
    and "in_w_model_size p = Coerced OTHER"
    and "in_w_model_path_or_id p = Absent \<or> in_w_model_path_or_id p = Coerced []"
    and "in_use_local_model p = Coerced False"
    and "in_api_key p = Absent \<or> in_api_key p = Coerced []"
  shows "Settings_construct p = Inl (ValidationError
           [Value_error ''Custom Model Path is required when 'Other' is selected in Model Size''])
     \<and> validate_model_path_or_id (snd (validate_fields p))
           = Inl ''Custom Model Path is required when 'Other' is selected in Model Size''
     \<and> validate_api_key (snd (validate_fields p))
           = Inl ''OpenAI API Key is required for online mode''"
proof -
  from assms(2,3) have a: "w_model_size (snd (validate_fields p)) = OTHER
      \<and> w_model_path_or_id (snd (validate_fields p)) = []"
    by (auto simp: validated_w_model_size validated_w_model_path_or_id)
  from assms(4,5) have b: "\<not> use_local_model (snd (validate_fields p))
      \<and> \<not> truthy_api_key (api_key (snd (validate_fields p)))"
    by (auto simp: validated_use_local_model validated_api_key truthy_str_def)
  from a assms(1) have "Settings_construct p = Inl (ValidationError
           [Value_error ''Custom Model Path is required when 'Other' is selected in Model Size''])"
    by (simp add: construct_unfold)
  moreover from a have "validate_model_path_or_id (snd (validate_fields p))
           = Inl ''Custom Model Path is required when 'Other' is selected in Model Size''"
    by (simp add: validate_model_path_or_id_def truthy_str_def)
  moreover from b have "validate_api_key (snd (validate_fields p))
           = Inl ''OpenAI API Key is required for online mode''"
    by (simp add: validate_api_key_def)
  ultimately show ?thesis by simp
qed

text \<open>
  The statement of C6 at \<^verbatim>\<open>{use_local_model: false, api_key: "", w_model_size: OTHER}\<close>.
\<close>

theorem both_rules_report_first_witness:
  "fst (validate_fields (empty_payload\<lparr>in_use_local_model := Coerced False,
       in_api_key := Coerced [], in_w_model_size := Coerced OTHER\<rparr>)) = []
   \<and> Settings_construct (empty_payload\<lparr>in_use_local_model := Coerced False,
       in_api_key := Coerced [], in_w_model_size := Coerced OTHER\<rparr>)
     = Inl (ValidationError
          [Value_error ''Custom Model Path is required when 'Other' is selected in Model Size''])
   \<and> validate_api_key (snd (validate_fields (empty_payload\<lparr>in_use_local_model := Coerced False,
       in_api_key := Coerced [], in_w_model_size := Coerced OTHER\<rparr>)))
     = Inl ''OpenAI API Key is required for online mode''"
proof -
  have h: "fst (validate_fields (empty_payload\<lparr>in_use_local_model := Coerced False,
       in_api_key := Coerced [], in_w_model_size := Coerced OTHER\<rparr>)) = []"
    by (simp add: validate_fields_def Let_def empty_payload_def)
  show ?thesis
    using h both_rules_report_first [OF h, simplified]
    by (simp add: empty_payload_def)
qed







section \<open>Properties of the hooks\<close>

subsection \<open>What a run of a hook does\<close>

text \<open>
  The outcome of \<^verbatim>\<open>activated\<close> by cases on whether the model is asked for; the bootstrap hook
  is \<^verbatim>\<open>activated\<close> on the plugin made of the path and the settings it reads.
\<close>

lemma get_instance_calls_append:
  "get_instance_calls (xs @ ys) = get_instance_calls xs @ get_instance_calls ys"
  by (induction xs rule: get_instance_calls.induct) simp_all

lemma activated_unfold:
  "activated gi pl w =
     (if wants_local_model (load_settings pl)
      then (case load_settings pl of
              Some d \<Rightarrow>
                (gi \<lparr>download_path = Some (Slash (Path (path pl)) ''models''),
                      trace = trace w @ [Set_download_path (Slash (Path (path pl)) ''models''), Load_settings]\<rparr> d,
                 \<lparr>download_path = Some (Slash (Path (path pl)) ''models''),
                  trace = trace w @ [Set_download_path (Slash (Path (path pl)) ''models''), Load_settings,
                                     Get_instance d]\<rparr>)
            | None \<Rightarrow>
                (None,
                 \<lparr>download_path = Some (Slash (Path (path pl)) ''models''),
                  trace = trace w @ [Set_download_path (Slash (Path (path pl)) ''models''), Load_settings]\<rparr>))
      else (case load_settings pl of
              None \<Rightarrow> None
            | Some d \<Rightarrow>
                if d \<noteq> [] \<and> map_of d ''use_local_model'' = None
                then Some (KeyError ''use_local_model'') else None,
            \<lparr>download_path = Some (Slash (Path (path pl)) ''models''),
             trace = trace w @ [Set_download_path (Slash (Path (path pl)) ''models''), Load_settings]\<rparr>))"
  by (cases w) (simp add: activated_def Let_def subscript_def split: option.split)

lemma after_cat_bootstrap_as_activated:
  "after_cat_bootstrap gi mh c w =
     activated gi \<lparr>path = path (get_plugin mh),
                   load_settings = load_settings (get_plugin (mad_hatter c))\<rparr> w"
  by (simp add: after_cat_bootstrap_def activated_def Let_def)

lemma activated_download_path:
  "download_path (snd (activated gi pl w)) = Some (Slash (Path (path pl)) ''models'')"
  by (simp add: activated_unfold split: option.split)

lemma activated_trace:
  "trace (snd (activated gi pl w))
     = trace w @ [Set_download_path (Slash (Path (path pl)) ''models''), Load_settings]
       @ (if wants_local_model (load_settings pl)
          then (case load_settings pl of None \<Rightarrow> [] | Some d \<Rightarrow> [Get_instance d]) else [])"
  by (cases "load_settings pl") (simp_all add: activated_unfold)

lemma activated_calls:
  "get_instance_calls (trace (snd (activated gi pl w)))
     = get_instance_calls (trace w)
       @ (if wants_local_model (load_settings pl)
          then (case load_settings pl of None \<Rightarrow> [] | Some d \<Rightarrow> [d]) else [])"
  by (cases "load_settings pl") (simp_all add: activated_trace get_instance_calls_append)

lemma activated_silent:
  "load_settings pl = None \<or> load_settings pl = Some []
     \<or> (\<exists>d v. load_settings pl = Some d \<and> map_of d ''use_local_model'' = Some v \<and> \<not> truthy v)
   \<Longrightarrow> fst (activated gi pl w) = None"
  by (auto simp: activated_unfold)

lemma activated_KeyError:
  "load_settings pl = Some d \<Longrightarrow> d \<noteq> [] \<Longrightarrow> map_of d ''use_local_model'' = None \<Longrightarrow>
     fst (activated gi pl w) = Some (KeyError ''use_local_model'')"
  by (simp add: activated_unfold)

subsection \<open>The claims about the hooks\<close>

text \<open>
  C1, as stated, lets the hook return without an error whenever it does not ask for the
  model. When \<^verbatim>\<open>load_settings()\<close> returns \<^verbatim>\<open>{"language": "en"}\<close>, a non-empty dict without
  the key \<^verbatim>\<open>use_local_model\<close>, the hook sets the download path, loads the settings, makes no
  \<^verbatim>\<open>get_instance\<close> call, and ends with \<^verbatim>\<open>KeyError\<close>.
\<close>

theorem activation_hook_counterexample:
  "load_settings \<lparr>path = ''/cat/plugins/whispering_cat'',
                  load_settings = Some [(''language'', PStr ''en'')]\<rparr>
     = Some [(''language'', PStr ''en'')]
   \<and> \<not> wants_local_model (Some [(''language'', PStr ''en'')])
   \<and> activated never_raises
        \<lparr>path = ''/cat/plugins/whispering_cat'', load_settings = Some [(''language'', PStr ''en'')]\<rparr>
        \<lparr>download_path = None, trace = []\<rparr>
     = (Some (KeyError ''use_local_model''),
        \<lparr>download_path = Some (Slash (Path ''/cat/plugins/whispering_cat'') ''models''),
         trace = [Set_download_path (Slash (Path ''/cat/plugins/whispering_cat'') ''models''),
                  Load_settings]\<rparr>)"
  by (simp add: activated_def Let_def subscript_def)

text \<open>
  C1, amended. Each hook first sets the download path to \<^verbatim>\<open><plugin path>/models\<close>, then loads
  the settings, and the download path is set whatever happens next. It calls
  \<^verbatim>\<open>get_instance\<close> once, with the loaded dict, when that dict is non-empty and holds a true
  value under \<^verbatim>\<open>use_local_model\<close>, and not at all otherwise. When the loaded value is
  \<^verbatim>\<open>None\<close>, or empty, or holds a false value under the key, the hook returns without an
  error.
\<close>

theorem activation_hook_effects:
  "download_path (snd (activated gi pl w)) = Some (Slash (Path (path pl)) ''models'')
   \<and> trace (snd (activated gi pl w))
       = trace w @ [Set_download_path (Slash (Path (path pl)) ''models''), Load_settings]
         @ (if wants_local_model (load_settings pl)
            then (case load_settings pl of None \<Rightarrow> [] | Some d \<Rightarrow> [Get_instance d]) else [])
   \<and> length (get_instance_calls (trace (snd (activated gi pl w))))
       = length (get_instance_calls (trace w))
         + (if wants_local_model (load_settings pl) then 1 else 0)
   \<and> (load_settings pl = None \<or> load_settings pl = Some []
        \<or> (\<exists>d v. load_settings pl = Some d \<and> map_of d ''use_local_model'' = Some v \<and> \<not> truthy v)
       \<longrightarrow> fst (activated gi pl w) = None)
   \<and> download_path (snd (after_cat_bootstrap gi mh c w))
       = Some (Slash (Path (path (get_plugin mh))) ''models'')
   \<and> trace (snd (after_cat_bootstrap gi mh c w))
       = trace w @ [Set_download_path (Slash (Path (path (get_plugin mh))) ''models''), Load_settings]
         @ (if wants_local_model (load_settings (get_plugin (mad_hatter c)))
            then (case load_settings (get_plugin (mad_hatter c)) of
                    None \<Rightarrow> [] | Some d \<Rightarrow> [Get_instance d])
            else [])
   \<and> length (get_instance_calls (trace (snd (after_cat_bootstrap gi mh c w))))
       = length (get_instance_calls (trace w))
         + (if wants_local_model (load_settings (get_plugin (mad_hatter c))) then 1 else 0)
   \<and> (load_settings (get_plugin (mad_hatter c)) = None
        \<or> load_settings (get_plugin (mad_hatter c)) = Some []
        \<or> (\<exists>d v. load_settings (get_plugin (mad_hatter c)) = Some d
                 \<and> map_of d ''use_local_model'' = Some v \<and> \<not> truthy v)
       \<longrightarrow> fst (after_cat_bootstrap gi mh c w) = None)"
proof -
  have calls: "length (get_instance_calls (trace (snd (activated gi q w))))
       = length (get_instance_calls (trace w)) + (if wants_local_model (load_settings q) then 1 else 0)"
    for q
    by (cases "load_settings q") (simp_all add: activated_calls)
  show ?thesis
    unfolding after_cat_bootstrap_as_activated
  proof (intro conjI impI)
    let ?q = "\<lparr>path = path (get_plugin mh),
          load_settings = load_settings (get_plugin (mad_hatter c))\<rparr>"
    show "download_path (snd (activated gi pl w)) = Some (Slash (Path (path pl)) ''models'')"
      by (rule activated_download_path)
    show "trace (snd (activated gi pl w))
       = trace w @ [Set_download_path (Slash (Path (path pl)) ''models''), Load_settings]
         @ (if wants_local_model (load_settings pl)
            then (case load_settings pl of None \<Rightarrow> [] | Some d \<Rightarrow> [Get_instance d]) else [])"
      by (rule activated_trace)
    show "length (get_instance_calls (trace (snd (activated gi pl w))))
       = length (get_instance_calls (trace w))
         + (if wants_local_model (load_settings pl) then 1 else 0)"
      by (rule calls)
    show "download_path (snd (activated gi ?q w))
       = Some (Slash (Path (path (get_plugin mh))) ''models'')"
      by (simp add: activated_download_path)
    show "trace (snd (activated gi ?q w))
       = trace w @ [Set_download_path (Slash (Path (path (get_plugin mh))) ''models''), Load_settings]
         @ (if wants_local_model (load_settings (get_plugin (mad_hatter c)))
            then (case load_settings (get_plugin (mad_hatter c)) of
                    None \<Rightarrow> [] | Some d \<Rightarrow> [Get_instance d])
            else [])"
      using activated_trace [of gi ?q w] by simp
    show "length (get_instance_calls (trace (snd (activated gi ?q w))))
       = length (get_instance_calls (trace w))
         + (if wants_local_model (load_settings (get_plugin (mad_hatter c))) then 1 else 0)"
      using calls [of ?q] by simp
  next
    assume "load_settings pl = None \<or> load_settings pl = Some []
        \<or> (\<exists>d v. load_settings pl = Some d \<and> map_of d ''use_local_model'' = Some v \<and> \<not> truthy v)"
    then show "fst (activated gi pl w) = None"
      by (rule activated_silent)
  next
    assume "load_settings (get_plugin (mad_hatter c)) = None
        \<or> load_settings (get_plugin (mad_hatter c)) = Some []
        \<or> (\<exists>d v. load_settings (get_plugin (mad_hatter c)) = Some d
                 \<and> map_of d ''use_local_model'' = Some v \<and> \<not> truthy v)"
    then show "fst (activated gi \<lparr>path = path (get_plugin mh),
          load_settings = load_settings (get_plugin (mad_hatter c))\<rparr> w) = None"
      by (intro activated_silent) simp
  qed
qed

text \<open>
  The statement of C1 on runs with \<^verbatim>\<open>{use_local_model: true, w_model_size: "base"}\<close>, with
  \<^verbatim>\<open>{use_local_model: false}\<close> and with no settings.
\<close>

theorem activation_hook_effects_witness:
  "activated never_raises
     \<lparr>path = ''/cat/plugins/whispering_cat'',
      load_settings = Some [(''use_local_model'', PBool True), (''w_model_size'', PStr ''base'')]\<rparr>
     \<lparr>download_path = None, trace = []\<rparr>
   = (None,
      \<lparr>download_path = Some (Slash (Path ''/cat/plugins/whispering_cat'') ''models''),
       trace = [Set_download_path (Slash (Path ''/cat/plugins/whispering_cat'') ''models''),
                Load_settings,
                Get_instance [(''use_local_model'', PBool True), (''w_model_size'', PStr ''base'')]]\<rparr>)
   \<and> load_settings \<lparr>path = ''/cat/plugins/whispering_cat'',
                    load_settings = Some [(''use_local_model'', PBool False)]\<rparr>
       = Some [(''use_local_model'', PBool False)]
   \<and> map_of [(''use_local_model'', PBool False)] ''use_local_model'' = Some (PBool False)
   \<and> \<not> truthy (PBool False)
   \<and> fst (activated never_raises
        \<lparr>path = ''/cat/plugins/whispering_cat'',
         load_settings = Some [(''use_local_model'', PBool False)]\<rparr>
        \<lparr>download_path = None, trace = []\<rparr>) = None
   \<and> fst (after_cat_bootstrap never_raises
        \<lparr>get_plugin = \<lparr>path = ''/cat/plugins/whispering_cat'', load_settings = None\<rparr>\<rparr>
        \<lparr>mad_hatter = \<lparr>get_plugin = \<lparr>path = ''/cat/plugins/whispering_cat'', load_settings = None\<rparr>\<rparr>\<rparr>
        \<lparr>download_path = None, trace = []\<rparr>) = None"
  using activation_hook_effects [of never_raises
      "\<lparr>path = ''/cat/plugins/whispering_cat'',
        load_settings = Some [(''use_local_model'', PBool False)]\<rparr>"
      "\<lparr>download_path = None, trace = []\<rparr>"
      "\<lparr>get_plugin = \<lparr>path = ''/cat/plugins/whispering_cat'', load_settings = None\<rparr>\<rparr>"
      "\<lparr>mad_hatter = \<lparr>get_plugin = \<lparr>path = ''/cat/plugins/whispering_cat'', load_settings = None\<rparr>\<rparr>\<rparr>"]
  by (simp add: activated_def Let_def subscript_def never_raises_def)

text \<open>
  C10. Both hooks index the loaded dict with \<^verbatim>\<open>"use_local_model"\<close> directly; no Settings
  record is built and no default fills a missing key. For a non-empty loaded dict without the
  key the hook ends with \<^verbatim>\<open>KeyError\<close> and makes no \<^verbatim>\<open>get_instance\<close> call; so a hook that
  returns without an error on a non-empty dict has found the key in it.
\<close>

theorem missing_key_raises:
  "(load_settings pl = Some d \<and> d \<noteq> [] \<and> map_of d ''use_local_model'' = None \<longrightarrow>
      fst (activated gi pl w) = Some (KeyError ''use_local_model'')
      \<and> get_instance_calls (trace (snd (activated gi pl w))) = get_instance_calls (trace w))
   \<and> (load_settings pl = Some d \<and> d \<noteq> [] \<and> fst (activated gi pl w) = None \<longrightarrow>
        ''use_local_model'' \<in> dom (map_of d))
   \<and> (load_settings (get_plugin (mad_hatter c)) = Some d \<and> d \<noteq> []
        \<and> map_of d ''use_local_model'' = None \<longrightarrow>
      fst (after_cat_bootstrap gi mh c w) = Some (KeyError ''use_local_model'')
      \<and> get_instance_calls (trace (snd (after_cat_bootstrap gi mh c w))) = get_instance_calls (trace w))
   \<and> (load_settings (get_plugin (mad_hatter c)) = Some d \<and> d \<noteq> []
        \<and> fst (after_cat_bootstrap gi mh c w) = None \<longrightarrow>
        ''use_local_model'' \<in> dom (map_of d))"
proof -
  have raises: "fst (activated gi q w) = Some (KeyError ''use_local_model'')
      \<and> get_instance_calls (trace (snd (activated gi q w))) = get_instance_calls (trace w)"
    if "load_settings q = Some d \<and> d \<noteq> [] \<and> map_of d ''use_local_model'' = None" for q
    using that by (simp add: activated_KeyError activated_calls)
  have present: "''use_local_model'' \<in> dom (map_of d)"
    if "load_settings q = Some d \<and> d \<noteq> [] \<and> fst (activated gi q w) = None" for q
  proof (rule ccontr)
    assume "''use_local_model'' \<notin> dom (map_of d)"
    then have "map_of d ''use_local_model'' = None" by (simp add: domIff)
    with that raises [of q] show False by simp
  qed
  let ?q = "\<lparr>path = path (get_plugin mh),
      load_settings = load_settings (get_plugin (mad_hatter c))\<rparr>"
  have h1: "load_settings pl = Some d \<and> d \<noteq> [] \<and> map_of d ''use_local_model'' = None \<longrightarrow>
      fst (activated gi pl w) = Some (KeyError ''use_local_model'')
      \<and> get_instance_calls (trace (snd (activated gi pl w))) = get_instance_calls (trace w)"
    using raises [of pl] by (rule impI)
  have h2: "load_settings pl = Some d \<and> d \<noteq> [] \<and> fst (activated gi pl w) = None \<longrightarrow>
        ''use_local_model'' \<in> dom (map_of d)"
    using present [of pl] by (rule impI)
  have h3: "load_settings (get_plugin (mad_hatter c)) = Some d \<and> d \<noteq> []
        \<and> map_of d ''use_local_model'' = None \<longrightarrow>
      fst (activated gi ?q w) = Some (KeyError ''use_local_model'')
      \<and> get_instance_calls (trace (snd (activated gi ?q w))) = get_instance_calls (trace w)"
  proof
    assume "load_settings (get_plugin (mad_hatter c)) = Some d \<and> d \<noteq> []
        \<and> map_of d ''use_local_model'' = None"
    then have "load_settings ?q = Some d \<and> d \<noteq> [] \<and> map_of d ''use_local_model'' = None"
      by simp
    then show "fst (activated gi ?q w) = Some (KeyError ''use_local_model'')
      \<and> get_instance_calls (trace (snd (activated gi ?q w))) = get_instance_calls (trace w)"
      by (rule raises)
  qed
  have h4: "load_settings (get_plugin (mad_hatter c)) = Some d \<and> d \<noteq> []
        \<and> fst (activated gi ?q w) = None \<longrightarrow> ''use_local_model'' \<in> dom (map_of d)"
  proof
    assume "load_settings (get_plugin (mad_hatter c)) = Some d \<and> d \<noteq> []
        \<and> fst (activated gi ?q w) = None"
    then have "load_settings ?q = Some d \<and> d \<noteq> [] \<and> fst (activated gi ?q w) = None"
      by auto
    then show "''use_local_model'' \<in> dom (map_of d)"
      by (rule present)
  qed
  show ?thesis
    unfolding after_cat_bootstrap_as_activated
    by (intro conjI h1 h2 h3 h4)
qed

text \<open>
  The statement of C10 at the loaded dict \<^verbatim>\<open>{"w_model_size": "base"}\<close>, for both hooks.
\<close>

theorem missing_key_raises_witness:
  "fst (activated never_raises
        \<lparr>path = ''/cat/plugins/whispering_cat'',
         load_settings = Some [(''w_model_size'', PStr ''base'')]\<rparr>
        \<lparr>download_path = None, trace = []\<rparr>) = Some (KeyError ''use_local_model'')
   \<and> fst (after_cat_bootstrap never_raises
        \<lparr>get_plugin = \<lparr>path = ''/cat/plugins/whispering_cat'',
                       load_settings = Some [(''w_model_size'', PStr ''base'')]\<rparr>\<rparr>
        \<lparr>mad_hatter = \<lparr>get_plugin = \<lparr>path = ''/cat/plugins/whispering_cat'',
                       load_settings = Some [(''w_model_size'', PStr ''base'')]\<rparr>\<rparr>\<rparr>
        \<lparr>download_path = None, trace = []\<rparr>) = Some (KeyError ''use_local_model'')
   \<and> [(''w_model_size'', PStr ''base'')] \<noteq> []
   \<and> map_of [(''w_model_size'', PStr ''base'')] ''use_local_model'' = None"
  using missing_key_raises [of
      "\<lparr>path = ''/cat/plugins/whispering_cat'',
        load_settings = Some [(''w_model_size'', PStr ''base'')]\<rparr>"
      "[(''w_model_size'', PStr ''base'')]" never_raises
      "\<lparr>download_path = None, trace = []\<rparr>"
      "\<lparr>mad_hatter = \<lparr>get_plugin = \<lparr>path = ''/cat/plugins/whispering_cat'',
                       load_settings = Some [(''w_model_size'', PStr ''base'')]\<rparr>\<rparr>\<rparr>"
      "\<lparr>get_plugin = \<lparr>path = ''/cat/plugins/whispering_cat'',
                       load_settings = Some [(''w_model_size'', PStr ''base'')]\<rparr>\<rparr>"]
  by simp

text \<open>
  C7. When the plugin that \<^verbatim>\<open>MadHatter().get_plugin()\<close> returns has the path \<open>p\<close> of the
  activated plugin, and the plugin that \<^verbatim>\<open>cat.mad_hatter.get_plugin()\<close> returns loads the same
  settings \<open>s\<close>, the bootstrap hook and the activation hook have the same outcome from the
  same state: the same error or return, the same download path \<^verbatim>\<open>p/models\<close>, the same trace,
  and so the same \<^verbatim>\<open>get_instance\<close> calls with the same arguments.
\<close>

theorem hooks_agree:
  assumes "path pl = p" and "load_settings pl = s"
    and "path (get_plugin mh) = p" and "load_settings (get_plugin (mad_hatter c)) = s"
  shows "after_cat_bootstrap gi mh c w = activated gi pl w
     \<and> download_path (snd (after_cat_bootstrap gi mh c w)) = Some (Slash (Path p) ''models'')
     \<and> download_path (snd (activated gi pl w)) = Some (Slash (Path p) ''models'')
     \<and> get_instance_calls (trace (snd (after_cat_bootstrap gi mh c w)))
         = get_instance_calls (trace (snd (activated gi pl w)))"
proof -
  from assms have "\<lparr>path = path (get_plugin mh),
      load_settings = load_settings (get_plugin (mad_hatter c))\<rparr> = pl"
    by simp
  then have "after_cat_bootstrap gi mh c w = activated gi pl w"
    by (simp add: after_cat_bootstrap_as_activated)
  then show ?thesis
    using assms(1) by (simp add: activated_download_path)
qed

text \<open>
  The statement of C7 at a plugin path and the settings \<^verbatim>\<open>{use_local_model: true}\<close>.
\<close>

theorem hooks_agree_witness:
  "after_cat_bootstrap never_raises
      \<lparr>get_plugin = \<lparr>path = ''/cat/plugins/whispering_cat'', load_settings = None\<rparr>\<rparr>
      \<lparr>mad_hatter = \<lparr>get_plugin = \<lparr>path = ''/cat/plugins/whispering_cat'',
                     load_settings = Some [(''use_local_model'', PBool True)]\<rparr>\<rparr>\<rparr>
      \<lparr>download_path = None, trace = []\<rparr>
    = activated never_raises
      \<lparr>path = ''/cat/plugins/whispering_cat'', load_settings = Some [(''use_local_model'', PBool True)]\<rparr>
      \<lparr>download_path = None, trace = []\<rparr>
   \<and> get_instance_calls (trace (snd (activated never_raises
      \<lparr>path = ''/cat/plugins/whispering_cat'', load_settings = Some [(''use_local_model'', PBool True)]\<rparr>
      \<lparr>download_path = None, trace = []\<rparr>))) = [[(''use_local_model'', PBool True)]]"
  using hooks_agree [of
      "\<lparr>path = ''/cat/plugins/whispering_cat'', load_settings = Some [(''use_local_model'', PBool True)]\<rparr>"
      "''/cat/plugins/whispering_cat''" "Some [(''use_local_model'', PBool True)]"
      "\<lparr>get_plugin = \<lparr>path = ''/cat/plugins/whispering_cat'', load_settings = None\<rparr>\<rparr>"
      "\<lparr>mad_hatter = \<lparr>get_plugin = \<lparr>path = ''/cat/plugins/whispering_cat'',
                     load_settings = Some [(''use_local_model'', PBool True)]\<rparr>\<rparr>\<rparr>"
      never_raises "\<lparr>download_path = None, trace = []\<rparr>"]
  by (simp add: activated_def Let_def subscript_def never_raises_def)

end
